theory Spec2Isabelle
  imports Complex_Main "HOL-Library.Sublist"
begin

section \<open>JavaScript values used by the monitor\<close>

text \<open>
  Numbers that the program handles are integers (status codes, millisecond timestamps,
  row ids); they are modelled as \<open>int\<close>. A template literal renders such a number in
  decimal, with a leading minus sign when negative.
\<close>

definition digit_char :: "nat \<Rightarrow> char" where
  "digit_char d = ''0123456789'' ! d"

function show_nat :: "nat \<Rightarrow> string" where
  "show_nat n = (if n < 10 then [digit_char n] else show_nat (n div 10) @ [digit_char (n mod 10)])"
  by pat_completeness auto
termination
  by (relation "measure id") auto

declare show_nat.simps [simp del]

definition show_int :: "int \<Rightarrow> string" where
  "show_int i = (if i < 0 then CHR ''-'' # show_nat (nat (- i)) else show_nat (nat i))"

text \<open>\<open>Array.prototype.join\<close> on a list of strings.\<close>

fun join :: "string \<Rightarrow> string list \<Rightarrow> string" where
  "join sep [] = []"
| "join sep [x] = x"
| "join sep (x # y # ys) = x @ sep @ join sep (y # ys)"

text \<open>\<open>String.prototype.toLowerCase\<close> on ASCII text.\<close>

definition lower_char :: "char \<Rightarrow> char" where
  "lower_char c =
     (let n = (of_char c :: nat) in if 65 \<le> n \<and> n \<le> 90 then char_of (n + 32) else c)"

definition toLowerCase :: "string \<Rightarrow> string" where
  "toLowerCase s = map lower_char s"

text \<open>\<open>String.prototype.startsWith\<close>.\<close>

definition startsWith :: "string \<Rightarrow> string \<Rightarrow> bool" where
  "startsWith s p = (take (length p) s = p)"

text \<open>Truthiness of a nullable string: \<open>null\<close>, \<open>undefined\<close> and \<open>""\<close> are falsy.\<close>

definition truthy_str :: "string option \<Rightarrow> bool" where
  "truthy_str v = (case v of None \<Rightarrow> False | Some s \<Rightarrow> s \<noteq> [])"

section \<open>Data model\<close>

text \<open>
  \<open>AnomalyType\<close> and \<open>Severity\<close> are the string-literal unions of
  \<open>anomaly-detector.ts\<close>; \<open>anomalyTypeName\<close> and \<open>severityName\<close> give back the
  strings, which is what the notifier receives.
\<close>

datatype AnomalyType =
  Downtime | SlowResponse | StatusCode | ContentChange | SslIssue | HeaderAnomaly

datatype Severity = Low | Medium | High | Critical

fun anomalyTypeName :: "AnomalyType \<Rightarrow> string" where
  "anomalyTypeName Downtime = ''downtime''"
| "anomalyTypeName SlowResponse = ''slow_response''"
| "anomalyTypeName StatusCode = ''status_code''"
| "anomalyTypeName ContentChange = ''content_change''"
| "anomalyTypeName SslIssue = ''ssl_issue''"
| "anomalyTypeName HeaderAnomaly = ''header_anomaly''"

fun severityName :: "Severity \<Rightarrow> string" where
  "severityName Low = ''low''"
| "severityName Medium = ''medium''"
| "severityName High = ''high''"
| "severityName Critical = ''critical''"

record AnomalyRecord =
  a_checkId :: int
  a_siteId :: int
  a_type :: AnomalyType
  a_description :: string
  a_severity :: Severity

text \<open>
  A header record as Node delivers it and as \<open>JSON.stringify\<close> stores it: every value is
  a string or an array of strings. The stored snapshot is a text column; \<open>BadJson\<close> stands
  for a text that \<open>JSON.parse\<close> rejects.
\<close>

datatype header_val = HStr string | HArr "string list"

type_synonym headers = "(string \<times> header_val) list"

datatype snapshot = BadJson | HeaderObj headers

text \<open>The certificate fields the prober serialises into \<open>sslCertificate\<close>.\<close>

record certificate =
  issuer :: string
  subject :: string
  valid_from :: string
  valid_to :: string
  serialNumber :: string
  fingerprint :: string

record RedirectHop =
  hop_url :: string
  hop_statusCode :: int

text \<open>
  \<open>CheckResult\<close> without \<open>siteId\<close> is what the prober returns; a row of the
  \<open>checks\<close> table adds the generated id, the site id and \<open>checkedAt\<close>. Dates are
  millisecond timestamps (what \<open>getTime()\<close> gives). The three JSON text columns hold the value that was serialised.
\<close>

record CheckResult =
  statusCode :: "int option"
  responseTimeMs :: "int option"
  isUp :: "bool option"
  errorMessage :: "string option"
  errorCode :: "string option"
  headersSnapshot :: "snapshot option"
  bodyHash :: "string option"
  sslValid :: "bool option"
  sslExpiry :: "int option"
  sslCertificate :: "certificate option"
  redirectChain :: "RedirectHop list option"

record check_row = CheckResult +
  c_id :: int
  c_siteId :: int
  checkedAt :: int

record site_row =
  site_id :: int
  url :: string
  name :: string
  isActive :: bool

text \<open>
  The per-site settings row. Every toggle is a nullable boolean; \<open>severityThreshold\<close>
  is the nullable column that the schema declares with the four severities and that
  \<open>shouldNotify\<close> reads as \<open>Severity | null\<close>.
\<close>

record SiteSettingsRow =
  ss_siteId :: int
  responseTimeThreshold :: "int option"
  sslExpiryWarningDays :: "int option"
  checkInterval :: "int option"
  notifyDowntime :: "bool option"
  notifySlowResponse :: "bool option"
  notifyStatusCode :: "bool option"
  notifyContentChange :: "bool option"
  notifySslIssue :: "bool option"
  notifyHeaderAnomaly :: "bool option"
  severityThreshold :: "Severity option"

text \<open>How the prober derives \<open>isUp\<close>: \<open>statusCode !== null && statusCode < 500\<close>.\<close>

definition derivedIsUp :: "int option \<Rightarrow> bool" where
  "derivedIsUp sc = (case sc of None \<Rightarrow> False | Some code \<Rightarrow> code < 500)"

section \<open>Notification eligibility (\<open>shouldNotify\<close>)\<close>

definition ROLLING_AVERAGE_WINDOW :: nat where
  "ROLLING_AVERAGE_WINDOW = 10"

definition DEFAULT_SLOW_RESPONSE_MULTIPLIER :: rat where
  "DEFAULT_SLOW_RESPONSE_MULTIPLIER = 2"

definition DEFAULT_SSL_EXPIRY_WARNING_DAYS :: int where
  "DEFAULT_SSL_EXPIRY_WARNING_DAYS = 7"

fun SEVERITY_LEVELS :: "Severity \<Rightarrow> nat" where
  "SEVERITY_LEVELS Low = 0"
| "SEVERITY_LEVELS Medium = 1"
| "SEVERITY_LEVELS High = 2"
| "SEVERITY_LEVELS Critical = 3"

fun NOTIFY_TYPE_FIELDS :: "AnomalyType \<Rightarrow> string" where
  "NOTIFY_TYPE_FIELDS Downtime = ''notifyDowntime''"
| "NOTIFY_TYPE_FIELDS SlowResponse = ''notifySlowResponse''"
| "NOTIFY_TYPE_FIELDS StatusCode = ''notifyStatusCode''"
| "NOTIFY_TYPE_FIELDS ContentChange = ''notifyContentChange''"
| "NOTIFY_TYPE_FIELDS SslIssue = ''notifySslIssue''"
| "NOTIFY_TYPE_FIELDS HeaderAnomaly = ''notifyHeaderAnomaly''"

text \<open>
  \<open>overrides[field] === false\<close>: the property of the settings row is read by its name.
  Only the six toggles can hold the boolean \<open>false\<close>; any other property is never
  \<open>=== false\<close>.
\<close>

definition fieldIsFalse :: "SiteSettingsRow \<Rightarrow> string \<Rightarrow> bool" where
  "fieldIsFalse ov field =
     (if field = ''notifyDowntime'' then notifyDowntime ov = Some False
      else if field = ''notifySlowResponse'' then notifySlowResponse ov = Some False
      else if field = ''notifyStatusCode'' then notifyStatusCode ov = Some False
      else if field = ''notifyContentChange'' then notifyContentChange ov = Some False
      else if field = ''notifySslIssue'' then notifySslIssue ov = Some False
      else if field = ''notifyHeaderAnomaly'' then notifyHeaderAnomaly ov = Some False
      else False)"

definition shouldNotify :: "SiteSettingsRow option \<Rightarrow> AnomalyType \<Rightarrow> Severity \<Rightarrow> bool" where
  "shouldNotify overrides anomalyType severity =
     (case overrides of
        None \<Rightarrow> True
      | Some ov \<Rightarrow>
          let field = NOTIFY_TYPE_FIELDS anomalyType in
          if fieldIsFalse ov field then False
          else
            let threshold = (case severityThreshold ov of None \<Rightarrow> Low | Some t \<Rightarrow> t)
            in SEVERITY_LEVELS severity \<ge> SEVERITY_LEVELS threshold)"

section \<open>Anomaly detection rules (\<open>detectAnomalies\<close>)\<close>

definition SECURITY_HEADERS :: "string list" where
  "SECURITY_HEADERS =
     [''strict-transport-security'', ''content-security-policy'', ''x-content-type-options'',
      ''x-frame-options'', ''x-xss-protection'', ''referrer-policy'', ''permissions-policy'']"

text \<open>
  \<open>parseHeaders\<close>: keys are lower-cased, array values joined with a comma and a space, a
  later entry of the same key replaces an earlier one; text that does not parse gives the
  empty record.
\<close>

fun flatten_val :: "header_val \<Rightarrow> string" where
  "flatten_val (HStr s) = s"
| "flatten_val (HArr xs) = join '', '' xs"

definition parseHeaders :: "snapshot \<Rightarrow> (string \<rightharpoonup> string)" where
  "parseHeaders snap =
     (case snap of
        BadJson \<Rightarrow> Map.empty
      | HeaderObj kvs \<Rightarrow>
          fold (\<lambda>(key, val) flat. flat(toLowerCase key \<mapsto> flatten_val val)) kvs Map.empty)"

text \<open>Rule 1, downtime: the site is unreachable or answers 5xx.\<close>

definition rule_downtime :: "int \<Rightarrow> int \<Rightarrow> check_row \<Rightarrow> AnomalyRecord list" where
  "rule_downtime checkId siteId current =
     (if isUp current \<noteq> Some True then
        (case statusCode current of
           Some code \<Rightarrow>
             if code \<ge> 500 then
               [\<lparr>a_checkId = checkId, a_siteId = siteId, a_type = Downtime,
                 a_description = ''server error: HTTP '' @ show_int code,
                 a_severity = Critical\<rparr>]
             else []
         | None \<Rightarrow>
             [\<lparr>a_checkId = checkId, a_siteId = siteId, a_type = Downtime,
               a_description =
                 (if truthy_str (errorMessage current)
                  then ''site unreachable: '' @ the (errorMessage current)
                  else ''site unreachable''),
               a_severity = Critical\<rparr>])
      else [])"

text \<open>
  Rule 2, slow response: the per-site absolute threshold, or twice the rolling average.
  The average is the exact quotient (the source divides doubles; for the integers at hand
  the comparisons agree with the exact ones as long as the products stay below \<open>2^53\<close>).
  \<open>Math.round\<close> rounds half up.
\<close>

definition math_round :: "rat \<Rightarrow> int" where
  "math_round x = \<lfloor>x + 1 / 2\<rfloor>"

text \<open>
  \<open>history.map((c) => c.responseTimeMs).filter((t) => t !== null)\<close>: the map, then
  the filter; what is left are numbers.
\<close>

definition historicalTimes :: "check_row list \<Rightarrow> int list" where
  "historicalTimes history = map the (filter (\<lambda>t. t \<noteq> None) (map responseTimeMs history))"

definition average :: "int list \<Rightarrow> rat" where
  "average ts = of_int (foldl (\<lambda>sum t. sum + t) 0 ts) / of_nat (length ts)"

definition rule_slow_response ::
  "int \<Rightarrow> int \<Rightarrow> check_row \<Rightarrow> check_row list \<Rightarrow> SiteSettingsRow option \<Rightarrow> AnomalyRecord list" where
  "rule_slow_response checkId siteId current history overrides =
     (case responseTimeMs current of
        None \<Rightarrow> []
      | Some rt \<Rightarrow>
          (case (case overrides of None \<Rightarrow> None | Some ov \<Rightarrow> responseTimeThreshold ov) of
             Some thr \<Rightarrow>
               if rt > thr then
                 [\<lparr>a_checkId = checkId, a_siteId = siteId, a_type = SlowResponse,
                   a_description = ''response time '' @ show_int rt @ ''ms exceeds threshold (''
                     @ show_int thr @ ''ms)'',
                   a_severity = (if rt > thr * 2 then High else Medium)\<rparr>]
               else []
           | None \<Rightarrow>
               if length history > 0 then
                 (let times = historicalTimes history in
                  if length times > 0 then
                    (let avg = average times;
                         threshold = avg * DEFAULT_SLOW_RESPONSE_MULTIPLIER
                     in if of_int rt > threshold then
                          [\<lparr>a_checkId = checkId, a_siteId = siteId, a_type = SlowResponse,
                            a_description = ''response time '' @ show_int rt
                              @ ''ms exceeds 2x rolling average ('' @ show_int (math_round avg)
                              @ ''ms)'',
                            a_severity = (if of_int rt > avg * 4 then High else Medium)\<rparr>]
                        else [])
                  else [])
               else []))"

text \<open>Rule 3, unexpected status codes: 3xx or 4xx.\<close>

definition rule_status_code :: "int \<Rightarrow> int \<Rightarrow> check_row \<Rightarrow> AnomalyRecord list" where
  "rule_status_code checkId siteId current =
     (case statusCode current of
        None \<Rightarrow> []
      | Some code \<Rightarrow>
          if code \<ge> 400 \<and> code < 500 then
            [\<lparr>a_checkId = checkId, a_siteId = siteId, a_type = StatusCode,
              a_description = ''client error: HTTP '' @ show_int code,
              a_severity = (if code = 401 \<or> code = 403 then High else Medium)\<rparr>]
          else if code \<ge> 300 \<and> code < 400 then
            [\<lparr>a_checkId = checkId, a_siteId = siteId, a_type = StatusCode,
              a_description = ''redirect: HTTP '' @ show_int code,
              a_severity = Low\<rparr>]
          else [])"

text \<open>Rule 4, content change: the body hash differs from the last one recorded.\<close>

definition rule_content_change ::
  "int \<Rightarrow> int \<Rightarrow> check_row \<Rightarrow> check_row list \<Rightarrow> AnomalyRecord list" where
  "rule_content_change checkId siteId current history =
     (if bodyHash current \<noteq> None \<and> length history > 0 then
        (case find (\<lambda>c. bodyHash c \<noteq> None) history of
           None \<Rightarrow> []
         | Some lastWithHash \<Rightarrow>
             if bodyHash lastWithHash \<noteq> bodyHash current then
               [\<lparr>a_checkId = checkId, a_siteId = siteId, a_type = ContentChange,
                 a_description = ''response body content changed since last check'',
                 a_severity = Low\<rparr>]
             else [])
      else [])"

text \<open>
  Rule 5, ssl issues on an https site: an invalid certificate, and (independently) an
  expired or soon expiring one. \<open>Math.floor\<close> of the quotient is \<open>div\<close> on \<open>int\<close>.
\<close>

definition MS_PER_DAY :: int where
  "MS_PER_DAY = 1000 * 60 * 60 * 24"

definition daysUntilExpiry :: "int \<Rightarrow> int \<Rightarrow> int" where
  "daysUntilExpiry expiry now = (expiry - now) div MS_PER_DAY"

definition rule_ssl ::
  "int \<Rightarrow> int \<Rightarrow> check_row \<Rightarrow> site_row \<Rightarrow> int \<Rightarrow> int \<Rightarrow> AnomalyRecord list" where
  "rule_ssl checkId siteId current site sslExpiryWarningDays' now =
     (if startsWith (url site) ''https://'' then
        (if sslValid current = Some False then
           [\<lparr>a_checkId = checkId, a_siteId = siteId, a_type = SslIssue,
             a_description = ''ssl certificate is invalid'', a_severity = Critical\<rparr>]
         else [])
        @
        (case sslExpiry current of
           None \<Rightarrow> []
         | Some expiry \<Rightarrow>
             (let days = daysUntilExpiry expiry now in
              if days \<le> 0 then
                [\<lparr>a_checkId = checkId, a_siteId = siteId, a_type = SslIssue,
                  a_description = ''ssl certificate expired '' @ show_int \<bar>days\<bar> @ '' days ago'',
                  a_severity = Critical\<rparr>]
              else if days \<le> sslExpiryWarningDays' then
                [\<lparr>a_checkId = checkId, a_siteId = siteId, a_type = SslIssue,
                  a_description = ''ssl certificate expires in '' @ show_int days @ '' days'',
                  a_severity = High\<rparr>]
              else []))
      else [])"

text \<open>Rule 6, header anomalies: security headers removed or changed.\<close>

definition rule_headers ::
  "int \<Rightarrow> int \<Rightarrow> check_row \<Rightarrow> check_row list \<Rightarrow> AnomalyRecord list" where
  "rule_headers checkId siteId current history =
     (case headersSnapshot current of
        None \<Rightarrow> []
      | Some currentSnap \<Rightarrow>
          if length history > 0 then
            (case find (\<lambda>c. headersSnapshot c \<noteq> None) history of
               None \<Rightarrow> []
             | Some lastWithHeaders \<Rightarrow>
                 (let currentHeaders = parseHeaders currentSnap;
                      previousHeaders = parseHeaders (the (headersSnapshot lastWithHeaders));
                      removedHeaders =
                        filter (\<lambda>h. previousHeaders h \<noteq> None \<and> currentHeaders h = None)
                          SECURITY_HEADERS;
                      changedHeaders =
                        filter (\<lambda>h. previousHeaders h \<noteq> None \<and> currentHeaders h \<noteq> None
                                  \<and> previousHeaders h \<noteq> currentHeaders h)
                          SECURITY_HEADERS
                  in (if length removedHeaders > 0 then
                        [\<lparr>a_checkId = checkId, a_siteId = siteId, a_type = HeaderAnomaly,
                          a_description = ''security headers removed: '' @ join '', '' removedHeaders,
                          a_severity = High\<rparr>]
                      else [])
                     @
                     (if length changedHeaders > 0 then
                        [\<lparr>a_checkId = checkId, a_siteId = siteId, a_type = HeaderAnomaly,
                          a_description = ''security headers changed: '' @ join '', '' changedHeaders,
                          a_severity = Medium\<rparr>]
                      else [])))
          else [])"

text \<open>
  The list \<open>detected\<close> that \<open>detectAnomalies\<close> builds from the current check, the
  history (the previous checks, newest first), the site, the per-site overrides and the
  clock: the six rules push in this order.
\<close>

definition detect ::
  "int \<Rightarrow> int \<Rightarrow> check_row \<Rightarrow> check_row list \<Rightarrow> site_row \<Rightarrow> SiteSettingsRow option
     \<Rightarrow> int \<Rightarrow> AnomalyRecord list" where
  "detect checkId siteId current history site overrides now =
     (let sslExpiryWarningDays' =
            (case (case overrides of None \<Rightarrow> None | Some ov \<Rightarrow> sslExpiryWarningDays ov) of
               None \<Rightarrow> DEFAULT_SSL_EXPIRY_WARNING_DAYS
             | Some d \<Rightarrow> d)
      in rule_downtime checkId siteId current
         @ rule_slow_response checkId siteId current history overrides
         @ rule_status_code checkId siteId current
         @ rule_content_change checkId siteId current history
         @ rule_ssl checkId siteId current site sslExpiryWarningDays' now
         @ rule_headers checkId siteId current history)"

section \<open>The notifier (\<open>slack-notifier.ts\<close>)\<close>

text \<open>
  The module keeps two maps for the lifetime of the process. The webhook calls made are
  collected in \<open>outbox\<close>; what the remote end answers only decides what is logged.
\<close>

record webhook_call =
  target :: string
  mention :: string
  emoji :: nat
  title :: string
  field_texts :: "string list"
  description_text :: string
  detected_at :: int

record notifier =
  rateLimitMap :: "string \<rightharpoonup> int"
  downtimeStartMap :: "int \<rightharpoonup> int"
  outbox :: "webhook_call list"

record AnomalyNotification =
  siteName :: string
  siteUrl :: string
  anomalyType :: string
  description :: string
  severity :: string
  timestamp :: int
  siteId :: int
  escalated :: "bool option"

definition RATE_LIMIT_MS :: int where
  "RATE_LIMIT_MS = 5 * 60 * 1000"

definition DEFAULT_ESCALATION_THRESHOLD_MINUTES :: int where
  "DEFAULT_ESCALATION_THRESHOLD_MINUTES = 5"

definition recordDowntimeStart :: "int \<Rightarrow> int \<Rightarrow> notifier \<Rightarrow> notifier" where
  "recordDowntimeStart now sid st =
     (if downtimeStartMap st sid = None
      then st\<lparr>downtimeStartMap := (downtimeStartMap st)(sid \<mapsto> now)\<rparr>
      else st)"

definition clearDowntime :: "int \<Rightarrow> notifier \<Rightarrow> notifier" where
  "clearDowntime sid st = st\<lparr>downtimeStartMap := (downtimeStartMap st)(sid := None)\<rparr>"

definition isEscalated :: "int \<Rightarrow> int \<Rightarrow> int option \<Rightarrow> notifier \<Rightarrow> bool" where
  "isEscalated now sid thresholdMinutes st =
     (case downtimeStartMap st sid of
        None \<Rightarrow> False
      | Some start \<Rightarrow>
          let threshold =
                (case thresholdMinutes of None \<Rightarrow> DEFAULT_ESCALATION_THRESHOLD_MINUTES | Some m \<Rightarrow> m)
                  * 60 * 1000
          in now - start \<ge> threshold)"

text \<open>The key of the rate-limit map is the text \<open>siteId:anomalyType\<close>.\<close>

definition rateKey :: "int \<Rightarrow> string \<Rightarrow> string" where
  "rateKey sid anomalyType' = show_int sid @ '':'' @ anomalyType'"

text \<open>
  \<open>isRateLimited\<close> returns its answer and the module state as it leaves it. The test
  \<open>last && ...\<close> takes a missing entry and the number 0 as absent.
\<close>

definition isRateLimited :: "int \<Rightarrow> int \<Rightarrow> string \<Rightarrow> notifier \<Rightarrow> bool \<times> notifier" where
  "isRateLimited now sid anomalyType' st =
     (let key = rateKey sid anomalyType';
          last = rateLimitMap st key
      in if (case last of None \<Rightarrow> False | Some l \<Rightarrow> l \<noteq> 0 \<and> now - l < RATE_LIMIT_MS)
         then (True, st)
         else (False, st\<lparr>rateLimitMap := (rateLimitMap st)(key \<mapsto> now)\<rparr>))"

text \<open>
  The key-value \<open>settings\<close> table is a list of \<open>(key, value)\<close> rows;
  \<open>getWebhookUrl\<close> reads the first row with the key \<open>slack_webhook_url\<close>.
\<close>

definition getWebhookUrl :: "(string \<times> string) list \<Rightarrow> string option" where
  "getWebhookUrl settingsTable =
     (case find (\<lambda>row. fst row = ''slack_webhook_url'') settingsTable of
        None \<Rightarrow> None
      | Some row \<Rightarrow> Some (snd row))"

text \<open>The emoji are given by their code points.\<close>

definition severityEmoji :: "string \<Rightarrow> nat" where
  "severityEmoji sev =
     (if sev = ''critical'' then 0x1f534
      else if sev = ''high'' then 0x1f7e0
      else if sev = ''medium'' then 0x1f7e1
      else 0x1f535)"

text \<open>
  \<open>notifyAnomaly\<close>: no configured URL (no row, or an empty value) returns at once; a
  rate-limited attempt returns after \<open>isRateLimited\<close>; otherwise the payload is posted.
  \<open>nl\<close> is the line feed of the template literals.
\<close>

definition nl :: string where
  "nl = [char_of (10 :: nat)]"

definition notifyAnomaly ::
  "(string \<times> string) list \<Rightarrow> int \<Rightarrow> AnomalyNotification \<Rightarrow> notifier \<Rightarrow> notifier" where
  "notifyAnomaly settingsTable now notification st =
     (let webhookUrl = getWebhookUrl settingsTable in
      if \<not> truthy_str webhookUrl then st
      else
        (case isRateLimited now (siteId notification) (anomalyType notification) st of
           (True, st') \<Rightarrow> st'
         | (False, st') \<Rightarrow>
             (let esc = (escalated notification = Some True);
                  prefix = (if esc then ''ESCALATED: '' else []);
                  channelMention = (if esc then ''<!channel> '' else []);
                  payload =
                    \<lparr>target = the webhookUrl,
                     mention = channelMention,
                     emoji = severityEmoji (severity notification),
                     title = '' *'' @ prefix @ ''Anomaly Detected: '' @ anomalyType notification @ ''*'',
                     field_texts =
                       [''*Site:*'' @ nl @ siteName notification,
                        ''*URL:*'' @ nl @ siteUrl notification,
                        ''*Type:*'' @ nl @ anomalyType notification,
                        ''*Severity:*'' @ nl @ severity notification],
                     description_text = ''*Description:*'' @ nl @ description notification,
                     detected_at = timestamp notification\<rparr>
              in st'\<lparr>outbox := outbox st' @ [payload]\<rparr>)))"

section \<open>The prober (\<open>singleRequest\<close>, \<open>performCheck\<close>)\<close>

text \<open>
  What lies outside the program is a parameter: the URL parser of the runtime, the
  transport and the clock it consumes, the hash function and the date parser.
  \<^item> \<open>urlProtocol u\<close> is \<open>new URL(u).protocol\<close>, or \<open>None\<close> when the constructor throws;
  \<^item> \<open>urlResolve loc base\<close> is \<open>new URL(loc, base).href\<close>, or \<open>None\<close> when it throws;
  \<^item> \<open>transport isHttps u timeoutMs\<close> is the first event the request to \<open>u\<close> produces
    and the milliseconds that pass until then.
\<close>

datatype js_error = TypeError string

datatype peer_cert = PeerThrows | PeerNone | PeerCert certificate

record socket =
  hasGetPeerCertificate :: bool
  peerCertificate :: peer_cert
  authorized :: "bool option"

text \<open>
  The events of a request, one per handler of \<open>singleRequest\<close>: the response ended
  (status, headers, body, socket), the response stream failed (status, headers, socket,
  message, code), the request timed out, the request failed (message, code), or
  \<open>transport.request\<close> itself threw (as it does for a protocol it does not speak).
\<close>

datatype net_event =
    End "int option" headers string "socket option"
  | ResError "int option" headers "socket option" string "string option"
  | Timeout
  | ReqError string "string option"
  | Throws string

record env =
  urlProtocol :: "string \<Rightarrow> string option"
  urlResolve :: "string \<Rightarrow> string \<Rightarrow> string option"
  transport :: "bool \<Rightarrow> string \<Rightarrow> int \<Rightarrow> net_event \<times> int"
  sha256hex :: "string \<Rightarrow> string"
  dateOf :: "string \<Rightarrow> int"

record request_error =
  err_message :: string
  err_code :: "string option"

record request_result =
  r_statusCode :: "int option"
  r_headers :: headers
  r_body :: string
  r_socket :: "socket option"
  r_error :: "request_error option"

definition CHECK_TIMEOUT_MS :: int where
  "CHECK_TIMEOUT_MS = 10000"

definition MAX_REDIRECTS :: nat where
  "MAX_REDIRECTS = 5"

text \<open>
  \<open>singleRequest\<close>: the promise resolves with the value built for the first event. An
  exception thrown inside the executor (by \<open>new URL(url)\<close>, or by the transport's
  \<open>request\<close>) rejects the promise: that is \<open>Inl\<close>. The second component is the time
  that has passed.
\<close>

definition singleRequest :: "env \<Rightarrow> string \<Rightarrow> int \<Rightarrow> (js_error + request_result) \<times> int" where
  "singleRequest e u timeoutMs =
     (case urlProtocol e u of
        None \<Rightarrow> (Inl (TypeError ''Invalid URL''), 0)
      | Some protocol \<Rightarrow>
          (let isHttps = (protocol = ''https:'') in
           case transport e isHttps u timeoutMs of
             (End sc hs body sock, dt) \<Rightarrow>
               (Inr \<lparr>r_statusCode = sc, r_headers = hs, r_body = body, r_socket = sock,
                     r_error = None\<rparr>, dt)
           | (ResError sc hs sock msg code, dt) \<Rightarrow>
               (Inr \<lparr>r_statusCode = sc, r_headers = hs, r_body = [], r_socket = sock,
                     r_error = Some \<lparr>err_message = msg, err_code = code\<rparr>\<rparr>, dt)
           | (Timeout, dt) \<Rightarrow>
               (Inr \<lparr>r_statusCode = None, r_headers = [], r_body = [], r_socket = None,
                     r_error = Some \<lparr>err_message = ''timeout after '' @ show_int timeoutMs @ ''ms'',
                                     err_code = Some ''ETIMEDOUT''\<rparr>\<rparr>, dt)
           | (ReqError msg code, dt) \<Rightarrow>
               (Inr \<lparr>r_statusCode = None, r_headers = [], r_body = [], r_socket = None,
                     r_error = Some \<lparr>err_message = msg, err_code = code\<rparr>\<rparr>, dt)
           | (Throws msg, dt) \<Rightarrow> (Inl (TypeError msg), dt)))"

text \<open>The value every early return of \<open>performCheck\<close> builds.\<close>

definition failedCheck ::
  "int option \<Rightarrow> int \<Rightarrow> string \<Rightarrow> string option \<Rightarrow> RedirectHop list option \<Rightarrow> CheckResult" where
  "failedCheck sc elapsed msg code chain =
     \<lparr>statusCode = sc, responseTimeMs = Some elapsed, isUp = Some False,
      errorMessage = Some msg, errorCode = code, headersSnapshot = None, bodyHash = None,
      sslValid = None, sslExpiry = None, sslCertificate = None, redirectChain = chain\<rparr>"

text \<open>\<open>redirectChain.length > 0 ? JSON.stringify(redirectChain) : null\<close>.\<close>

definition chainOrNull :: "RedirectHop list \<Rightarrow> RedirectHop list option" where
  "chainOrNull chain = (if length chain > 0 then Some chain else None)"

text \<open>\<open>result.headers.location\<close>, a single string in Node's header record.\<close>

definition locationOf :: "headers \<Rightarrow> string option" where
  "locationOf hs = (case map_of hs ''location'' of Some (HStr s) \<Rightarrow> Some s | _ \<Rightarrow> None)"

text \<open>
  The certificate data of the final response, read only for an https URL with a socket;
  a throwing \<open>getPeerCertificate\<close> is caught and leaves the three fields null.
\<close>

definition sslInfo ::
  "env \<Rightarrow> string \<Rightarrow> socket option \<Rightarrow> bool option \<times> int option \<times> certificate option" where
  "sslInfo e protocol sock =
     (if protocol = ''https:'' then
        (case sock of
           None \<Rightarrow> (None, None, None)
         | Some s \<Rightarrow>
             if hasGetPeerCertificate s then
               (case peerCertificate s of
                  PeerCert cert \<Rightarrow>
                    if valid_to cert \<noteq> [] then
                      (Some (authorized s \<noteq> Some False), Some (dateOf e (valid_to cert)), Some cert)
                    else (None, None, None)
                | _ \<Rightarrow> (None, None, None))
             else (None, None, None))
      else (None, None, None))"

definition finalResponse ::
  "env \<Rightarrow> int \<Rightarrow> string \<Rightarrow> RedirectHop list \<Rightarrow> request_result \<Rightarrow> js_error + CheckResult" where
  "finalResponse e elapsed currentUrl chain result =
     (case urlProtocol e currentUrl of
        None \<Rightarrow> Inl (TypeError ''Invalid URL'')
      | Some protocol \<Rightarrow>
          (case sslInfo e protocol (r_socket result) of
             (sslValid', sslExpiry', sslCertificate') \<Rightarrow>
               Inr \<lparr>statusCode = r_statusCode result,
                    responseTimeMs = Some elapsed,
                    isUp = Some (derivedIsUp (r_statusCode result)),
                    errorMessage = None, errorCode = None,
                    headersSnapshot = Some (HeaderObj (r_headers result)),
                    bodyHash = Some (sha256hex e (r_body result)),
                    sslValid = sslValid', sslExpiry = sslExpiry',
                    sslCertificate = sslCertificate',
                    redirectChain = chainOrNull chain\<rparr>))"

text \<open>
  The loop \<open>for (hop = 0; hop <= MAX_REDIRECTS; hop++)\<close> of \<open>performCheck\<close>, with the
  loop variables as arguments: the hop number, the current URL, the visited set, the chain
  and the clock. The result is the settled promise (\<open>Inl\<close> when it rejects) and the clock.
\<close>

function performCheck_loop ::
  "env \<Rightarrow> int \<Rightarrow> nat \<Rightarrow> string \<Rightarrow> string set \<Rightarrow> RedirectHop list \<Rightarrow> int
     \<Rightarrow> (js_error + CheckResult) \<times> int" where
  "performCheck_loop e start hop currentUrl visitedUrls chain now =
     (if \<not> hop \<le> MAX_REDIRECTS then
        (Inr (failedCheck None (now - start)
               (''too many redirects (>'' @ show_int (int MAX_REDIRECTS) @ '')'')
               (Some ''TOO_MANY_REDIRECTS'') (chainOrNull chain)), now)
      else if currentUrl \<in> visitedUrls then
        (Inr (failedCheck None (now - start)
               (''redirect loop detected: '' @ currentUrl @ '' already visited'')
               (Some ''REDIRECT_LOOP'') (chainOrNull chain)), now)
      else
        (let visitedUrls' = insert currentUrl visitedUrls;
             remainingMs = CHECK_TIMEOUT_MS - (now - start)
         in if remainingMs \<le> 0 then
              (Inr (failedCheck None (now - start)
                     (''timeout after '' @ show_int CHECK_TIMEOUT_MS @ ''ms'')
                     (Some ''ETIMEDOUT'') (chainOrNull chain)), now)
            else
              (case singleRequest e currentUrl remainingMs of
                 (Inl err, dt) \<Rightarrow> (Inl err, now + dt)
               | (Inr result, dt) \<Rightarrow>
                   (let now' = now + dt in
                    case r_error result of
                      Some err \<Rightarrow>
                        (Inr (failedCheck (r_statusCode result) (now' - start) (err_message err)
                               (err_code err) (chainOrNull chain)), now')
                    | None \<Rightarrow>
                        (case r_statusCode result of
                           None \<Rightarrow> (finalResponse e (now' - start) currentUrl chain result, now')
                         | Some sc \<Rightarrow>
                             if sc \<ge> 300 \<and> sc < 400 \<and> truthy_str (locationOf (r_headers result))
                             then
                               (let chain' = chain @ [\<lparr>hop_url = currentUrl, hop_statusCode = sc\<rparr>]
                                in if hop = MAX_REDIRECTS then
                                     (Inr (failedCheck (Some sc) (now' - start)
                                            (''too many redirects (>'' @ show_int (int MAX_REDIRECTS)
                                               @ '')'')
                                            (Some ''TOO_MANY_REDIRECTS'') (Some chain')), now')
                                   else
                                     (case urlResolve e (the (locationOf (r_headers result)))
                                             currentUrl of
                                        None \<Rightarrow> (Inl (TypeError ''Invalid URL''), now')
                                      | Some next \<Rightarrow>
                                          performCheck_loop e start (Suc hop) next visitedUrls'
                                            chain' now'))
                             else (finalResponse e (now' - start) currentUrl chain result, now'))))))"
  by pat_completeness auto
termination
  by (relation "measure (\<lambda>(e, start, hop, currentUrl, visitedUrls, chain, now). Suc MAX_REDIRECTS - hop)")
     auto

declare performCheck_loop.simps [simp del]

definition performCheck :: "env \<Rightarrow> int \<Rightarrow> string \<Rightarrow> (js_error + CheckResult) \<times> int" where
  "performCheck e start u = performCheck_loop e start 0 u {} [] start"

section \<open>The store, \<open>detectAnomalies\<close> and \<open>runChecks\<close>\<close>

text \<open>
  The tables are lists of rows in insertion order; the two counters are the
  auto-increment sequences of \<open>checks\<close> and \<open>anomalies\<close>.
\<close>

record anomaly_row = AnomalyRecord +
  an_id :: int
  createdAt :: int

record db =
  sites :: "site_row list"
  checks :: "check_row list"
  anomalies :: "anomaly_row list"
  siteSettings :: "SiteSettingsRow list"
  settings :: "(string \<times> string) list"
  checkSeq :: int
  anomalySeq :: int

text \<open>
  \<open>orderBy(desc(checks.checkedAt))\<close>: newest first. The query runs backwards over the
  index on \<open>(site_id, checked_at)\<close>, so among rows of equal \<open>checkedAt\<close> the one with
  the greater id comes first: a stable sort by \<open>checkedAt\<close> of the rows sorted by id,
  both descending.
\<close>

definition orderByCheckedAtDesc :: "check_row list \<Rightarrow> check_row list" where
  "orderByCheckedAtDesc rows =
     sort_key (\<lambda>c. - checkedAt c) (sort_key (\<lambda>c. - c_id c) rows)"

text \<open>
  A column of mode \<open>timestamp\<close> stores whole seconds: a date written to it reads back
  as the milliseconds of its second.
\<close>

definition storedTimestamp :: "int \<Rightarrow> int" where
  "storedTimestamp ms = (ms div 1000) * 1000"

definition insertCheck :: "int \<Rightarrow> int \<Rightarrow> CheckResult \<Rightarrow> db \<Rightarrow> int \<times> db" where
  "insertCheck now sid result d =
     (let newId = checkSeq d + 1;
          stored = result\<lparr>sslExpiry := map_option storedTimestamp (sslExpiry result)\<rparr>;
          row = CheckResult.extend stored
                  \<lparr>c_id = newId, c_siteId = sid, checkedAt = storedTimestamp now\<rparr>
      in (newId, d\<lparr>checks := checks d @ [row], checkSeq := newId\<rparr>))"

fun insertAnomalies :: "int \<Rightarrow> AnomalyRecord list \<Rightarrow> db \<Rightarrow> db" where
  "insertAnomalies now [] d = d"
| "insertAnomalies now (a # as) d =
     (let newId = anomalySeq d + 1;
          row = AnomalyRecord.extend a \<lparr>an_id = newId, createdAt = storedTimestamp now\<rparr>
      in insertAnomalies now as (d\<lparr>anomalies := anomalies d @ [row], anomalySeq := newId\<rparr>))"

text \<open>
  The notifications \<open>detectAnomalies\<close> fires for the eligible anomalies, in the order of
  \<open>detected\<close>. The calls are not awaited, but each reaches its rate-limit test in the
  order it was started.
\<close>

definition notificationOf :: "site_row \<Rightarrow> int \<Rightarrow> AnomalyRecord \<Rightarrow> AnomalyNotification" where
  "notificationOf site now anomaly =
     \<lparr>siteName = name site, siteUrl = url site,
      anomalyType = anomalyTypeName (a_type anomaly),
      description = a_description anomaly,
      severity = severityName (a_severity anomaly),
      timestamp = now, siteId = a_siteId anomaly, escalated = None\<rparr>"

fun notifyAll ::
  "(string \<times> string) list \<Rightarrow> site_row \<Rightarrow> SiteSettingsRow option \<Rightarrow> int \<Rightarrow> AnomalyRecord list
     \<Rightarrow> notifier \<Rightarrow> notifier" where
  "notifyAll settingsTable site overrides now [] st = st"
| "notifyAll settingsTable site overrides now (anomaly # rest) st =
     (if \<not> shouldNotify overrides (a_type anomaly) (a_severity anomaly)
      then notifyAll settingsTable site overrides now rest st
      else notifyAll settingsTable site overrides now rest
             (notifyAnomaly settingsTable now (notificationOf site now anomaly) st))"

definition detectAnomalies :: "int \<Rightarrow> int \<Rightarrow> int \<Rightarrow> db \<times> notifier \<Rightarrow> db \<times> notifier" where
  "detectAnomalies checkId sid now w =
     (case w of (d, st) \<Rightarrow>
        (case find (\<lambda>c. c_id c = checkId) (checks d) of
           None \<Rightarrow> (d, st)
         | Some current \<Rightarrow>
             (let previousChecks =
                    take (ROLLING_AVERAGE_WINDOW + 1)
                      (orderByCheckedAtDesc (filter (\<lambda>c. c_siteId c = sid) (checks d)));
                  history = filter (\<lambda>c. c_id c \<noteq> checkId) previousChecks
              in case find (\<lambda>s. site_id s = sid) (sites d) of
                   None \<Rightarrow> (d, st)
                 | Some site \<Rightarrow>
                     (let overrides = find (\<lambda>ov. ss_siteId ov = sid) (siteSettings d);
                          detected = detect checkId sid current history site overrides now
                      in if length detected > 0 then
                           (insertAnomalies now detected d,
                            notifyAll (settings d) site overrides now detected st)
                         else (d, st)))))"

text \<open>
  \<open>runChecks\<close>: every active site gets its own pipeline (probe, insert the check,
  detect); \<open>Promise.allSettled\<close> waits for all of them and a pipeline that rejects
  changes nothing. The pipelines are run here one after the other in the order of the
  site list, each starting at the time of the tick; the count returned is
  \<open>results.length\<close>.
\<close>

definition sitePipeline :: "env \<Rightarrow> int \<Rightarrow> site_row \<Rightarrow> db \<times> notifier \<Rightarrow> db \<times> notifier" where
  "sitePipeline e now site w =
     (case performCheck e now (url site) of
        (Inl err, now') \<Rightarrow> w
      | (Inr result, now') \<Rightarrow>
          (case insertCheck now' (site_id site) result (fst w) of
             (insertedId, d') \<Rightarrow> detectAnomalies insertedId (site_id site) now' (d', snd w)))"

definition runChecks :: "env \<Rightarrow> int \<Rightarrow> db \<times> notifier \<Rightarrow> nat \<times> (db \<times> notifier)" where
  "runChecks e now w =
     (let activeSites = filter isActive (sites (fst w)) in
      if length activeSites = 0 then (0, w)
      else (length (map (\<lambda>site. site_id site) activeSites),
            fold (sitePipeline e now) activeSites w))"

section \<open>Notions of the specification\<close>

text \<open>
  The total order of the specification, \<open>low < medium < high < critical\<close>, written out
  pair by pair, and the toggle that belongs to an anomaly type. \<open>shouldNotify\<close> is
  compared with both below.
\<close>

fun spec_severity_less :: "Severity \<Rightarrow> Severity \<Rightarrow> bool" where
  "spec_severity_less Low Medium = True"
| "spec_severity_less Low High = True"
| "spec_severity_less Low Critical = True"
| "spec_severity_less Medium High = True"
| "spec_severity_less Medium Critical = True"
| "spec_severity_less High Critical = True"
| "spec_severity_less _ _ = False"

definition typeToggle :: "SiteSettingsRow \<Rightarrow> AnomalyType \<Rightarrow> bool option" where
  "typeToggle ov t =
     (case t of
        Downtime \<Rightarrow> notifyDowntime ov
      | SlowResponse \<Rightarrow> notifySlowResponse ov
      | StatusCode \<Rightarrow> notifyStatusCode ov
      | ContentChange \<Rightarrow> notifyContentChange ov
      | SslIssue \<Rightarrow> notifySslIssue ov
      | HeaderAnomaly \<Rightarrow> notifyHeaderAnomaly ov)"

text \<open>
  A redirect sequence. \<open>redirectResponse e start now u\<close> says that the request to
  \<open>u\<close>, made at clock \<open>now\<close> within the time budget, is answered without error by a
  3xx status with a non-empty \<open>Location\<close>; \<open>redirectStep\<close> adds that the location
  resolves. \<open>followRedirects e start now u n\<close> follows \<open>n\<close> such answers from \<open>u\<close> on and
  gives the hops taken, the target of the last redirect and the clock.
\<close>

definition redirectResponse :: "env \<Rightarrow> int \<Rightarrow> int \<Rightarrow> string \<Rightarrow> (int \<times> string \<times> int) option" where
  "redirectResponse e start now u =
     (if CHECK_TIMEOUT_MS - (now - start) \<le> 0 then None
      else
        (case singleRequest e u (CHECK_TIMEOUT_MS - (now - start)) of
           (Inl err, dt) \<Rightarrow> None
         | (Inr result, dt) \<Rightarrow>
             (case (r_error result, r_statusCode result, locationOf (r_headers result)) of
                (None, Some sc, Some loc) \<Rightarrow>
                  if sc \<ge> 300 \<and> sc < 400 \<and> loc \<noteq> [] then Some (sc, loc, now + dt) else None
              | _ \<Rightarrow> None)))"

definition redirectStep :: "env \<Rightarrow> int \<Rightarrow> int \<Rightarrow> string \<Rightarrow> (int \<times> string \<times> int) option" where
  "redirectStep e start now u =
     (case redirectResponse e start now u of
        None \<Rightarrow> None
      | Some (sc, loc, now') \<Rightarrow>
          (case urlResolve e loc u of None \<Rightarrow> None | Some next \<Rightarrow> Some (sc, next, now')))"

fun followRedirects ::
  "env \<Rightarrow> int \<Rightarrow> int \<Rightarrow> string \<Rightarrow> nat \<Rightarrow> (RedirectHop list \<times> string \<times> int) option" where
  "followRedirects e start now u 0 = Some ([], u, now)"
| "followRedirects e start now u (Suc n) =
     (case redirectStep e start now u of
        None \<Rightarrow> None
      | Some (sc, next, now') \<Rightarrow>
          (case followRedirects e start now' next n of
             None \<Rightarrow> None
           | Some (hops, dest, t) \<Rightarrow>
               Some (\<lparr>hop_url = u, hop_statusCode = sc\<rparr> # hops, dest, t)))"

section \<open>Example inputs\<close>

text \<open>Checks, a site and a history as the test suite builds them.\<close>

definition okCheck :: check_row where
  "okCheck =
     \<lparr>statusCode = Some 200, responseTimeMs = Some 100, isUp = Some True,
      errorMessage = None, errorCode = None, headersSnapshot = None, bodyHash = None,
      sslValid = None, sslExpiry = None, sslCertificate = None, redirectChain = None,
      c_id = 1, c_siteId = 1, checkedAt = 1000\<rparr>"

definition httpsSite :: site_row where
  "httpsSite = \<lparr>site_id = 1, url = ''https://test.com'', name = ''test'', isActive = True\<rparr>"

definition check503 :: check_row where
  "check503 = okCheck\<lparr>statusCode := Some 503, isUp := Some False, c_id := 2\<rparr>"

definition check404 :: check_row where
  "check404 = okCheck\<lparr>statusCode := Some 404, c_id := 2\<rparr>"

definition check250ms :: check_row where
  "check250ms = okCheck\<lparr>responseTimeMs := Some 250, c_id := 7\<rparr>"

definition checkBadCert :: check_row where
  "checkBadCert =
     okCheck\<lparr>sslValid := Some False, sslExpiry := Some (3 * 86400000 + 5000), c_id := 2\<rparr>"

text \<open>A history, newest first, in which only two checks carry a response time.\<close>

definition gappyHistory :: "check_row list" where
  "gappyHistory =
     [okCheck\<lparr>responseTimeMs := Some 120, c_id := 6\<rparr>,
      okCheck\<lparr>responseTimeMs := None, c_id := 5\<rparr>,
      okCheck\<lparr>responseTimeMs := None, c_id := 4\<rparr>,
      okCheck\<lparr>responseTimeMs := Some 80, c_id := 3\<rparr>,
      okCheck\<lparr>responseTimeMs := None, c_id := 2\<rparr>]"

definition quietSettings :: SiteSettingsRow where
  "quietSettings =
     \<lparr>ss_siteId = 1, responseTimeThreshold = None, sslExpiryWarningDays = None,
      checkInterval = None, notifyDowntime = None, notifySlowResponse = Some False,
      notifyStatusCode = Some True, notifyContentChange = None, notifySslIssue = None,
      notifyHeaderAnomaly = None, severityThreshold = Some High\<rparr>"

text \<open>Notifier states and settings tables.\<close>

definition hookSettings :: "(string \<times> string) list" where
  "hookSettings = [(''slack_webhook_url'', ''https://hooks.example/T1'')]"

definition noHookSettings :: "(string \<times> string) list" where
  "noHookSettings = [(''dashboard_password_hash'', ''abc'')]"

definition downtimeNote :: AnomalyNotification where
  "downtimeNote =
     \<lparr>siteName = ''test'', siteUrl = ''https://test.com'', anomalyType = ''downtime'',
      description = ''server error: HTTP 503'', severity = ''critical'', timestamp = 0,
      siteId = 1, escalated = None\<rparr>"

definition markedAt1000 :: notifier where
  "markedAt1000 =
     \<lparr>rateLimitMap = [''1:downtime'' \<mapsto> 1000], downtimeStartMap = Map.empty, outbox = []\<rparr>"

definition idleNotifier :: notifier where
  "idleNotifier = \<lparr>rateLimitMap = Map.empty, downtimeStartMap = Map.empty, outbox = []\<rparr>"

text \<open>
  An environment for the prober. Its URL parser accepts the texts that begin with
  \<open>http://\<close> or \<open>https://\<close> and go on after that, and rejects everything else (as the
  runtime's parser rejects \<open>not a url\<close> and \<open>http://\<close>). A URL listed in the table answers
  302 with the listed \<open>Location\<close>, any other URL answers 200; every answer takes 10 ms. The
  hash function is a stand-in.
\<close>

definition exampleProtocol :: "string \<Rightarrow> string option" where
  "exampleProtocol u =
     (if startsWith u ''https://'' \<and> length u > 8 then Some ''https:''
      else if startsWith u ''http://'' \<and> length u > 7 then Some ''http:''
      else None)"

definition redirectingEnv :: "(string \<times> string) list \<Rightarrow> env" where
  "redirectingEnv table =
     \<lparr>urlProtocol = exampleProtocol,
      urlResolve = (\<lambda>loc base. case exampleProtocol loc of None \<Rightarrow> None | Some p \<Rightarrow> Some loc),
      transport =
        (\<lambda>isHttps u timeoutMs.
           case map_of table u of
             Some next \<Rightarrow> (End (Some 302) [(''location'', HStr next)] [] None, 10)
           | None \<Rightarrow> (End (Some 200) [(''content-type'', HStr ''text/html'')] ''ok'' None, 10)),
      sha256hex = (\<lambda>body. ''sha256:'' @ body),
      dateOf = (\<lambda>s. 0)\<rparr>"

text \<open>The chain A, B, C, D, E, F and back to B; and the loop A, B, C and back to A.\<close>

definition scenarioE :: "(string \<times> string) list" where
  "scenarioE =
     [(''http://a.test/'', ''http://b.test/''), (''http://b.test/'', ''http://c.test/''),
      (''http://c.test/'', ''http://d.test/''), (''http://d.test/'', ''http://e.test/''),
      (''http://e.test/'', ''http://f.test/''), (''http://f.test/'', ''http://b.test/'')]"

definition shortLoop :: "(string \<times> string) list" where
  "shortLoop =
     [(''http://a.test/'', ''http://b.test/''), (''http://b.test/'', ''http://c.test/''),
      (''http://c.test/'', ''http://a.test/'')]"

definition shortLoopHops :: "RedirectHop list" where
  "shortLoopHops =
     [\<lparr>hop_url = ''http://a.test/'', hop_statusCode = 302\<rparr>,
      \<lparr>hop_url = ''http://b.test/'', hop_statusCode = 302\<rparr>,
      \<lparr>hop_url = ''http://c.test/'', hop_statusCode = 302\<rparr>]"

text \<open>
  Stores: an active site checked 10 seconds before the tick at clock 100000, with no
  settings row (so the default interval of 60 seconds applies); and an active site whose
  URL does not parse.
\<close>

definition recentCheck :: check_row where
  "recentCheck = okCheck\<lparr>checkedAt := 90000\<rparr>"

definition recentDb :: db where
  "recentDb =
     \<lparr>sites = [\<lparr>site_id = 1, url = ''https://example.com'', name = ''example'', isActive = True\<rparr>],
      checks = [recentCheck], anomalies = [], siteSettings = [], settings = [],
      checkSeq = 1, anomalySeq = 0\<rparr>"

definition malformedDb :: db where
  "malformedDb =
     \<lparr>sites = [\<lparr>site_id = 1, url = ''not a url'', name = ''broken'', isActive = True\<rparr>],
      checks = [], anomalies = [], siteSettings = [], settings = [],
      checkSeq = 0, anomalySeq = 0\<rparr>"

section \<open>Properties of the detection rules\<close>

text \<open>Each rule only produces records of its own type.\<close>

lemma types_downtime: "list_all (\<lambda>a. a_type a = Downtime) (rule_downtime i s c)"
  by (simp add: rule_downtime_def split: option.split)

lemma types_slow: "list_all (\<lambda>a. a_type a = SlowResponse) (rule_slow_response i s c h ov)"
  by (simp add: rule_slow_response_def Let_def split: option.split)

lemma types_status: "list_all (\<lambda>a. a_type a = StatusCode) (rule_status_code i s c)"
  by (simp add: rule_status_code_def split: option.split)

lemma types_content: "list_all (\<lambda>a. a_type a = ContentChange) (rule_content_change i s c h)"
  by (simp add: rule_content_change_def split: option.split)

lemma types_ssl: "list_all (\<lambda>a. a_type a = SslIssue) (rule_ssl i s c si w n)"
  by (simp add: rule_ssl_def Let_def split: option.split)

lemma types_headers: "list_all (\<lambda>a. a_type a = HeaderAnomaly) (rule_headers i s c h)"
  by (simp add: rule_headers_def Let_def split: option.split)

lemma filter_other_type:
  "list_all (\<lambda>a. a_type a = t') xs \<Longrightarrow> t' \<noteq> t \<Longrightarrow> filter (\<lambda>a. a_type a = t) xs = []"
  by (induction xs) auto

lemma filter_same_type:
  "list_all (\<lambda>a. a_type a = t) xs \<Longrightarrow> filter (\<lambda>a. a_type a = t) xs = xs"
  by (induction xs) auto

text \<open>So the records of one type in \<open>detected\<close> are exactly what the rule of that type pushed.\<close>

lemma detect_filter_downtime:
  "filter (\<lambda>a. a_type a = Downtime) (detect i s c h si ov n) = rule_downtime i s c"
  unfolding detect_def Let_def filter_append
  by (simp add: filter_same_type[OF types_downtime] filter_other_type[OF types_slow]
      filter_other_type[OF types_status] filter_other_type[OF types_content]
      filter_other_type[OF types_ssl] filter_other_type[OF types_headers])

lemma detect_filter_status:
  "filter (\<lambda>a. a_type a = StatusCode) (detect i s c h si ov n) = rule_status_code i s c"
  unfolding detect_def Let_def filter_append
  by (simp add: filter_other_type[OF types_downtime] filter_other_type[OF types_slow]
      filter_same_type[OF types_status] filter_other_type[OF types_content]
      filter_other_type[OF types_ssl] filter_other_type[OF types_headers])

lemma detect_filter_slow:
  "filter (\<lambda>a. a_type a = SlowResponse) (detect i s c h si ov n) =
     rule_slow_response i s c h ov"
  unfolding detect_def Let_def filter_append
  by (simp add: filter_other_type[OF types_downtime] filter_same_type[OF types_slow]
      filter_other_type[OF types_status] filter_other_type[OF types_content]
      filter_other_type[OF types_ssl] filter_other_type[OF types_headers])

lemma detect_filter_ssl:
  "filter (\<lambda>a. a_type a = SslIssue) (detect i s c h si ov n) =
     rule_ssl i s c si
       (case (case ov of None \<Rightarrow> None | Some ov \<Rightarrow> sslExpiryWarningDays ov) of
          None \<Rightarrow> DEFAULT_SSL_EXPIRY_WARNING_DAYS
        | Some d \<Rightarrow> d) n"
  unfolding detect_def Let_def filter_append
  by (simp add: filter_other_type[OF types_downtime] filter_other_type[OF types_slow]
      filter_other_type[OF types_status] filter_other_type[OF types_content]
      filter_same_type[OF types_ssl] filter_other_type[OF types_headers])

lemma show_int_503: "show_int 503 = ''503''"
  by (simp add: show_int_def show_nat.simps digit_char_def)

text \<open>
  Claim C5. For every check whose status code lies in 500..599, with \<open>isUp\<close> derived from
  the status code as the prober does, the detected list holds exactly one downtime
  record; its severity is critical and its description contains the decimal status code.
\<close>

theorem detect_5xx_one_critical_downtime:
  assumes "statusCode current = Some code" and "500 \<le> code" and "code \<le> 599"
    and "isUp current = Some (derivedIsUp (statusCode current))"
  shows "\<exists>a. filter (\<lambda>a. a_type a = Downtime)
               (detect checkId sid current history site overrides now) = [a]
           \<and> a_severity a = Critical
           \<and> sublist (show_int code) (a_description a)"
proof -
  let ?a = "\<lparr>a_checkId = checkId, a_siteId = sid, a_type = Downtime,
             a_description = ''server error: HTTP '' @ show_int code, a_severity = Critical\<rparr>"
  from assms have "rule_downtime checkId sid current = [?a]"
    by (simp add: rule_downtime_def derivedIsUp_def)
  then have "filter (\<lambda>a. a_type a = Downtime)
               (detect checkId sid current history site overrides now) = [?a]"
    by (simp only: detect_filter_downtime)
  moreover have "sublist (show_int code) (a_description ?a)"
    using sublist_appendI[of "show_int code" "''server error: HTTP ''" "[]"] by simp
  ultimately show ?thesis by auto
qed

theorem detect_5xx_one_critical_downtime_witness:
  "statusCode check503 = Some 503 \<and> (500::int) \<le> 503 \<and> (503::int) \<le> 599
   \<and> isUp check503 = Some (derivedIsUp (statusCode check503))
   \<and> (\<exists>a. filter (\<lambda>a. a_type a = Downtime) (detect 2 1 check503 [] httpsSite None 5000) = [a]
           \<and> a_severity a = Critical
           \<and> sublist ''503'' (a_description a))"
  using detect_5xx_one_critical_downtime[of check503 503 2 1 "[]" httpsSite None 5000]
  by (simp add: check503_def okCheck_def derivedIsUp_def show_int_503)

text \<open>
  Claim C10. For every check, the detected list never holds both a downtime record and a
  status_code record.
\<close>

theorem detect_downtime_excludes_status_code:
  "\<not> (\<exists>a b. a \<in> set (detect checkId sid current history site overrides now)
           \<and> b \<in> set (detect checkId sid current history site overrides now)
           \<and> a_type a = Downtime \<and> a_type b = StatusCode)"
proof
  assume "\<exists>a b. a \<in> set (detect checkId sid current history site overrides now)
           \<and> b \<in> set (detect checkId sid current history site overrides now)
           \<and> a_type a = Downtime \<and> a_type b = StatusCode"
  then obtain a b where
    a: "a \<in> set (detect checkId sid current history site overrides now)" "a_type a = Downtime" and
    b: "b \<in> set (detect checkId sid current history site overrides now)" "a_type b = StatusCode"
    by auto
  from a have "a \<in> set (filter (\<lambda>a. a_type a = Downtime)
                          (detect checkId sid current history site overrides now))"
    by simp
  then have d: "rule_downtime checkId sid current \<noteq> []"
    unfolding detect_filter_downtime by auto
  from b have "b \<in> set (filter (\<lambda>a. a_type a = StatusCode)
                          (detect checkId sid current history site overrides now))"
    by simp
  then have s: "rule_status_code checkId sid current \<noteq> []"
    unfolding detect_filter_status by auto
  from d s show False
    by (cases "statusCode current")
       (simp_all add: rule_downtime_def rule_status_code_def split: if_split_asm)
qed

theorem detect_downtime_excludes_status_code_witness:
  "map a_type (detect 2 1 check503 [] httpsSite None 5000) = [Downtime]
   \<and> map a_type (detect 2 1 check404 [] httpsSite None 5000) = [StatusCode]
   \<and> \<not> (\<exists>a b. a \<in> set (detect 2 1 check503 [] httpsSite None 5000)
           \<and> b \<in> set (detect 2 1 check503 [] httpsSite None 5000)
           \<and> a_type a = Downtime \<and> a_type b = StatusCode)"
proof -
  have "map a_type (detect 2 1 check503 [] httpsSite None 5000) = [Downtime]"
    by code_simp
  moreover have "map a_type (detect 2 1 check404 [] httpsSite None 5000) = [StatusCode]"
    by code_simp
  ultimately show ?thesis
    using detect_downtime_excludes_status_code[of 2 1 check503 "[]" httpsSite None 5000]
    by blast
qed

text \<open>The average the rule computes is the mean of the list.\<close>

lemma foldl_plus_sum_list: "foldl (\<lambda>sum t. sum + t) a ts = a + sum_list (ts :: int list)"
  by (induction ts arbitrary: a) auto

lemma average_mean: "average ts = of_int (sum_list ts) / of_nat (length ts)"
  by (simp add: average_def foldl_plus_sum_list)

text \<open>The times the rule averages are the non-null response times of the history.\<close>

lemma historicalTimes_non_null: "historicalTimes history = List.map_filter responseTimeMs history"
  unfolding historicalTimes_def
  by (induction history) (auto simp: map_filter_simps)

lemma map_filter_gappyHistory: "List.map_filter responseTimeMs gappyHistory = [120, 80]"
  by (simp add: gappyHistory_def okCheck_def map_filter_simps)

text \<open>
  Claim C6. For every check with a response time \<open>rt\<close>, no absolute threshold override,
  and a history whose non-null response times have the mean \<open>avg\<close>: when
  \<open>rt > 2 * avg\<close> the detected list holds exactly one slow_response record, of severity
  high if \<open>rt > 4 * avg\<close> and medium otherwise; when \<open>rt \<le> 2 * avg\<close> it holds none.
\<close>

theorem detect_slow_response_rolling_average:
  assumes "responseTimeMs current = Some rt"
    and "(case overrides of None \<Rightarrow> None | Some ov \<Rightarrow> responseTimeThreshold ov) = None"
    and "List.map_filter responseTimeMs history \<noteq> []"
    and "(avg :: rat) =
           of_int (sum_list (List.map_filter responseTimeMs history))
             / of_nat (length (List.map_filter responseTimeMs history))"
  shows "if of_int rt > 2 * avg
         then \<exists>a. filter (\<lambda>a. a_type a = SlowResponse)
                     (detect checkId sid current history site overrides now) = [a]
                \<and> a_severity a = (if of_int rt > 4 * avg then High else Medium)
         else filter (\<lambda>a. a_type a = SlowResponse)
                (detect checkId sid current history site overrides now) = []"
proof -
  from assms(3) have h: "history \<noteq> []"
    by (auto simp: map_filter_simps)
  from assms(3) have ne: "historicalTimes history \<noteq> []"
    by (simp add: historicalTimes_non_null)
  have avg: "average (historicalTimes history) = avg"
    using assms(4) by (simp add: average_mean historicalTimes_non_null)
  show ?thesis
    unfolding detect_filter_slow
    using assms(1,2) ne h avg
    by (simp add: rule_slow_response_def Let_def DEFAULT_SLOW_RESPONSE_MULTIPLIER_def mult.commute)
qed

theorem detect_slow_response_rolling_average_witness:
  "responseTimeMs check250ms = Some 250
   \<and> (case (None :: SiteSettingsRow option) of None \<Rightarrow> None
       | Some ov \<Rightarrow> responseTimeThreshold ov) = None
   \<and> List.map_filter responseTimeMs gappyHistory \<noteq> []
   \<and> (100 :: rat) =
        of_int (sum_list (List.map_filter responseTimeMs gappyHistory))
          / of_nat (length (List.map_filter responseTimeMs gappyHistory))
   \<and> (\<exists>a. filter (\<lambda>a. a_type a = SlowResponse)
             (detect 7 1 check250ms gappyHistory httpsSite None 5000) = [a]
          \<and> a_severity a = Medium)"
proof -
  have h1: "responseTimeMs check250ms = Some 250"
    by (simp add: check250ms_def okCheck_def)
  have h2: "(case (None :: SiteSettingsRow option) of None \<Rightarrow> None
             | Some ov \<Rightarrow> responseTimeThreshold ov) = None"
    by simp
  have h3: "List.map_filter responseTimeMs gappyHistory \<noteq> []"
    by (simp add: map_filter_gappyHistory)
  have h4: "(100 :: rat) = of_int (sum_list (List.map_filter responseTimeMs gappyHistory))
              / of_nat (length (List.map_filter responseTimeMs gappyHistory))"
    by (simp add: map_filter_gappyHistory)
  from detect_slow_response_rolling_average[OF h1 h2 h3 h4, of 7 1 httpsSite 5000]
  have "\<exists>a. filter (\<lambda>a. a_type a = SlowResponse)
               (detect 7 1 check250ms gappyHistory httpsSite None 5000) = [a]
            \<and> a_severity a = Medium"
    by simp
  with h1 h2 h3 h4 show ?thesis by blast
qed

text \<open>
  Claim C7. On an https site, a check with \<open>sslValid = false\<close> and an expiry whose whole
  days until expiry are at most the warning days (the per-site value, or the default)
  yields two ssl_issue records: first the critical one for the invalid certificate, then
  the one for the expiry (critical when the days are at most 0, high otherwise).
\<close>

theorem detect_invalid_and_expiring_cert:
  assumes "startsWith (url site) ''https://''"
    and "sslValid current = Some False"
    and "sslExpiry current = Some expiry"
    and "warningDays =
           (case (case overrides of None \<Rightarrow> None | Some ov \<Rightarrow> sslExpiryWarningDays ov) of
              None \<Rightarrow> DEFAULT_SSL_EXPIRY_WARNING_DAYS | Some d \<Rightarrow> d)"
    and "days = (expiry - now) div (1000 * 60 * 60 * 24)"
    and "days \<le> warningDays"
  shows "\<exists>a b. filter (\<lambda>a. a_type a = SslIssue)
                 (detect checkId sid current history site overrides now) = [a, b]
           \<and> a_severity a = Critical
           \<and> a_description a = ''ssl certificate is invalid''
           \<and> a_severity b = (if days \<le> 0 then Critical else High)
           \<and> a_description b =
               (if days \<le> 0 then ''ssl certificate expired '' @ show_int \<bar>days\<bar> @ '' days ago''
                else ''ssl certificate expires in '' @ show_int days @ '' days'')"
  unfolding detect_filter_ssl
  using assms
  by (simp add: rule_ssl_def Let_def daysUntilExpiry_def MS_PER_DAY_def)

theorem detect_invalid_and_expiring_cert_witness:
  "startsWith (url httpsSite) ''https://''
   \<and> sslValid checkBadCert = Some False
   \<and> sslExpiry checkBadCert = Some (3 * 86400000 + 5000)
   \<and> (7::int) = (case (case (None :: SiteSettingsRow option) of None \<Rightarrow> None
                         | Some ov \<Rightarrow> sslExpiryWarningDays ov) of
                   None \<Rightarrow> DEFAULT_SSL_EXPIRY_WARNING_DAYS | Some d \<Rightarrow> d)
   \<and> (3::int) = ((3 * 86400000 + 5000) - 5000) div (1000 * 60 * 60 * 24)
   \<and> (3::int) \<le> 7
   \<and> (\<exists>a b. filter (\<lambda>a. a_type a = SslIssue)
               (detect 2 1 checkBadCert [] httpsSite None 5000) = [a, b]
           \<and> a_severity a = Critical
           \<and> a_description a = ''ssl certificate is invalid''
           \<and> a_severity b = High
           \<and> a_description b = ''ssl certificate expires in '' @ show_int 3 @ '' days'')"
  using detect_invalid_and_expiring_cert
          [of httpsSite checkBadCert "3 * 86400000 + 5000" 7 None 3 5000 2 1 "[]"]
  by (simp add: httpsSite_def checkBadCert_def okCheck_def startsWith_def
        DEFAULT_SSL_EXPIRY_WARNING_DAYS_def)

section \<open>Properties of \<open>shouldNotify\<close>\<close>

lemma severity_less_levels:
  "spec_severity_less a b \<longleftrightarrow> SEVERITY_LEVELS a < SEVERITY_LEVELS b"
  by (cases a; cases b) simp_all

lemma fieldIsFalse_toggle:
  "fieldIsFalse ov (NOTIFY_TYPE_FIELDS t) \<longleftrightarrow> typeToggle ov t = Some False"
  by (cases t) (simp_all add: fieldIsFalse_def typeToggle_def)

text \<open>
  Claim C8. An anomaly is eligible for notification exactly when the site has no settings
  row, or the toggle of its type is not \<open>false\<close> (absent counts as enabled) and its
  severity is not below the configured floor (default low) in the order
  \<open>low < medium < high < critical\<close>; that order is the numeric order of
  \<open>SEVERITY_LEVELS\<close>.
\<close>

theorem shouldNotify_eligibility:
  "shouldNotify None t s
   \<and> (shouldNotify (Some ov) t s \<longleftrightarrow>
        typeToggle ov t \<noteq> Some False
        \<and> \<not> spec_severity_less s (case severityThreshold ov of None \<Rightarrow> Low | Some th \<Rightarrow> th))
   \<and> (spec_severity_less a b \<longleftrightarrow> SEVERITY_LEVELS a < SEVERITY_LEVELS b)"
  by (auto simp: shouldNotify_def Let_def fieldIsFalse_toggle severity_less_levels)

theorem shouldNotify_eligibility_witness:
  "shouldNotify None SlowResponse Low
   \<and> \<not> shouldNotify (Some quietSettings) SlowResponse Critical
   \<and> \<not> shouldNotify (Some quietSettings) StatusCode Medium
   \<and> shouldNotify (Some quietSettings) StatusCode High"
  using shouldNotify_eligibility[of SlowResponse Low quietSettings Low Low]
        shouldNotify_eligibility[of SlowResponse Critical quietSettings Low Low]
        shouldNotify_eligibility[of StatusCode Medium quietSettings Low Low]
        shouldNotify_eligibility[of StatusCode High quietSettings Low Low]
  by (simp add: typeToggle_def quietSettings_def)

section \<open>Properties of the notifier\<close>

lemma rateKey_1_downtime: "rateKey 1 ''downtime'' = ''1:downtime''"
  by (simp add: rateKey_def show_int_def show_nat.simps digit_char_def)

lemma isRateLimited_recent:
  assumes "rateLimitMap st (rateKey sid ty) = Some l0" and "l0 \<noteq> 0"
    and "now - l0 < RATE_LIMIT_MS"
  shows "isRateLimited now sid ty st = (True, st)"
  using assms by (simp add: isRateLimited_def Let_def)

lemma isRateLimited_not_recent:
  assumes "\<not> (case rateLimitMap st (rateKey sid ty) of None \<Rightarrow> False
              | Some l0 \<Rightarrow> l0 \<noteq> 0 \<and> now - l0 < RATE_LIMIT_MS)"
  shows "isRateLimited now sid ty st =
           (False, st\<lparr>rateLimitMap := (rateLimitMap st)(rateKey sid ty \<mapsto> now)\<rparr>)"
  using assms by (simp add: isRateLimited_def Let_def)

text \<open>
  Claim C2, as stated, fails. The key of site 1 and type downtime was last marked at clock
  1000. An attempt at 299000, inside the five minutes, sends nothing and leaves the marker
  at 1000: it is not moved to 299000. Hence the attempt at 301000, two seconds after the
  suppressed one, is delivered.
\<close>

theorem suppressed_attempt_refresh_counterexample:
  "outbox (notifyAnomaly hookSettings 299000 downtimeNote markedAt1000) = []
   \<and> rateLimitMap (notifyAnomaly hookSettings 299000 downtimeNote markedAt1000)
        (rateKey 1 ''downtime'') = Some 1000
   \<and> rateLimitMap (notifyAnomaly hookSettings 299000 downtimeNote markedAt1000)
        (rateKey 1 ''downtime'') \<noteq> Some 299000
   \<and> length (outbox (notifyAnomaly hookSettings 301000 downtimeNote
                 (notifyAnomaly hookSettings 299000 downtimeNote markedAt1000))) = 1"
  by (simp add: notifyAnomaly_def Let_def isRateLimited_def RATE_LIMIT_MS_def rateKey_1_downtime
        markedAt1000_def downtimeNote_def hookSettings_def getWebhookUrl_def truthy_str_def)

text \<open>
  Claim C2, amended. With a webhook URL configured, a dispatch attempt that arrives less
  than five minutes after the marker of its key (a marker of 0 counts as none) sends no
  webhook call and leaves the whole notifier state, the marker included, as it was. Any
  other attempt sets the marker to its own time and makes one webhook call. So the window
  runs from the last attempt that was not suppressed.
\<close>

theorem suppressed_attempt_leaves_marker:
  assumes "truthy_str (getWebhookUrl settingsTable)"
    and "key = rateKey (siteId n) (anomalyType n)"
  shows "if (case rateLimitMap st key of None \<Rightarrow> False
             | Some l0 \<Rightarrow> l0 \<noteq> 0 \<and> now - l0 < 5 * 60 * 1000)
         then notifyAnomaly settingsTable now n st = st
         else rateLimitMap (notifyAnomaly settingsTable now n st) key = Some now
              \<and> length (outbox (notifyAnomaly settingsTable now n st)) = length (outbox st) + 1"
  using assms
  by (auto simp: notifyAnomaly_def Let_def isRateLimited_def RATE_LIMIT_MS_def
      split: option.splits)

theorem suppressed_attempt_leaves_marker_witness:
  "truthy_str (getWebhookUrl hookSettings)
   \<and> ''1:downtime'' = rateKey (siteId downtimeNote) (anomalyType downtimeNote)
   \<and> notifyAnomaly hookSettings 61000 downtimeNote markedAt1000 = markedAt1000
   \<and> rateLimitMap (notifyAnomaly hookSettings 301000 downtimeNote markedAt1000) ''1:downtime''
       = Some 301000
   \<and> length (outbox (notifyAnomaly hookSettings 301000 downtimeNote markedAt1000)) = 1"
proof -
  have h1: "truthy_str (getWebhookUrl hookSettings)"
    by (simp add: truthy_str_def getWebhookUrl_def hookSettings_def)
  have h2: "''1:downtime'' = rateKey (siteId downtimeNote) (anomalyType downtimeNote)"
    by (simp add: downtimeNote_def rateKey_1_downtime)
  have m: "rateLimitMap markedAt1000 ''1:downtime'' = Some 1000" "outbox markedAt1000 = []"
    by (simp_all add: markedAt1000_def)
  from suppressed_attempt_leaves_marker[OF h1 h2, where st = markedAt1000 and now = 61000]
  have a: "notifyAnomaly hookSettings 61000 downtimeNote markedAt1000 = markedAt1000"
    by (simp add: m)
  from suppressed_attempt_leaves_marker[OF h1 h2, where st = markedAt1000 and now = 301000]
  have b: "rateLimitMap (notifyAnomaly hookSettings 301000 downtimeNote markedAt1000) ''1:downtime''
             = Some 301000
           \<and> length (outbox (notifyAnomaly hookSettings 301000 downtimeNote markedAt1000)) = 1"
    by (simp add: m)
  from h1 h2 a b show ?thesis by blast
qed

lemma getWebhookUrl_absent:
  "''slack_webhook_url'' \<notin> fst ` set settingsTable \<Longrightarrow> getWebhookUrl settingsTable = None"
  by (induction settingsTable) (auto simp: getWebhookUrl_def)

text \<open>
  Claim C9. When the settings table has no row for the webhook URL, \<open>notifyAnomaly\<close>
  returns the notifier state it was given: no marker of the rate-limit map is set or
  moved, and no webhook call is made.
\<close>

theorem notify_without_webhook_changes_nothing:
  assumes "''slack_webhook_url'' \<notin> fst ` set settingsTable"
  shows "notifyAnomaly settingsTable now n st = st
         \<and> rateLimitMap (notifyAnomaly settingsTable now n st) = rateLimitMap st
         \<and> outbox (notifyAnomaly settingsTable now n st) = outbox st"
  using getWebhookUrl_absent[OF assms]
  by (simp add: notifyAnomaly_def truthy_str_def)

theorem notify_without_webhook_changes_nothing_witness:
  "''slack_webhook_url'' \<notin> fst ` set noHookSettings
   \<and> notifyAnomaly noHookSettings 400000 downtimeNote markedAt1000 = markedAt1000
   \<and> rateLimitMap (notifyAnomaly noHookSettings 400000 downtimeNote markedAt1000) ''1:downtime''
        = Some 1000"
proof -
  have h: "''slack_webhook_url'' \<notin> fst ` set noHookSettings"
    by (simp add: noHookSettings_def)
  from notify_without_webhook_changes_nothing[OF h, of 400000 downtimeNote markedAt1000] h
  show ?thesis by (simp add: markedAt1000_def)
qed

section \<open>Properties of the prober\<close>

text \<open>One redirect answer moves the loop to the next hop.\<close>

lemma redirectStep_loop:
  assumes "redirectStep e start now u = Some (sc, next, now')"
    and "hop < MAX_REDIRECTS" and "u \<notin> visited"
  shows "performCheck_loop e start hop u visited chain now =
           performCheck_loop e start (Suc hop) next (insert u visited)
             (chain @ [\<lparr>hop_url = u, hop_statusCode = sc\<rparr>]) now'"
  using assms
  apply (subst performCheck_loop.simps)
  apply (auto simp: redirectStep_def redirectResponse_def Let_def truthy_str_def
      split: if_split_asm option.split_asm sum.split_asm prod.split_asm)
  done

lemma followRedirects_loop:
  assumes "followRedirects e start now u n = Some (hops, dest, t)"
    and "hop + n \<le> MAX_REDIRECTS"
    and "distinct (map hop_url hops)"
    and "set (map hop_url hops) \<inter> visited = {}"
  shows "performCheck_loop e start hop u visited chain now =
           performCheck_loop e start (hop + n) dest (visited \<union> set (map hop_url hops))
             (chain @ hops) t"
  using assms
proof (induction n arbitrary: hop u visited chain now hops)
  case 0
  then show ?case by simp
next
  case (Suc n)
  from Suc.prems(1) obtain sc "next" now' hops' where
    step: "redirectStep e start now u = Some (sc, next, now')" and
    rest: "followRedirects e start now' next n = Some (hops', dest, t)" and
    hops: "hops = \<lparr>hop_url = u, hop_statusCode = sc\<rparr> # hops'"
    by (auto split: option.split_asm prod.split_asm)
  from Suc.prems(2) have lt: "hop < MAX_REDIRECTS" and le: "Suc hop + n \<le> MAX_REDIRECTS"
    by simp_all
  from Suc.prems(4) hops have nv: "u \<notin> visited" by auto
  from Suc.prems(3,4) hops have d: "distinct (map hop_url hops')"
    and dj: "set (map hop_url hops') \<inter> insert u visited = {}"
    by auto
  have "performCheck_loop e start hop u visited chain now =
          performCheck_loop e start (Suc hop) next (insert u visited)
            (chain @ [\<lparr>hop_url = u, hop_statusCode = sc\<rparr>]) now'"
    by (rule redirectStep_loop[OF step lt nv])
  also have "\<dots> = performCheck_loop e start (Suc hop + n) dest
                     (insert u visited \<union> set (map hop_url hops'))
                     ((chain @ [\<lparr>hop_url = u, hop_statusCode = sc\<rparr>]) @ hops') t"
    by (rule Suc.IH[OF rest le d dj])
  finally show ?case
    using hops by (simp add: Un_commute insert_commute)
qed

lemma followRedirects_split:
  assumes "followRedirects e start now u (a + b) = Some (hops, dest, t)"
  shows "\<exists>h1 mid t1 h2. followRedirects e start now u a = Some (h1, mid, t1)
           \<and> followRedirects e start t1 mid b = Some (h2, dest, t)
           \<and> hops = h1 @ h2"
  using assms
proof (induction a arbitrary: now u hops)
  case 0
  then show ?case by simp
next
  case (Suc a)
  from Suc.prems obtain sc "next" now' hops' where
    step: "redirectStep e start now u = Some (sc, next, now')" and
    rest: "followRedirects e start now' next (a + b) = Some (hops', dest, t)" and
    hops: "hops = \<lparr>hop_url = u, hop_statusCode = sc\<rparr> # hops'"
    by (auto split: option.split_asm prod.split_asm)
  from Suc.IH[OF rest] obtain h1 mid t1 h2 where
    "followRedirects e start now' next a = Some (h1, mid, t1)"
    "followRedirects e start t1 mid b = Some (h2, dest, t)" "hops' = h1 @ h2"
    by blast
  with step hops show ?case by simp
qed

lemma followRedirects_length:
  "followRedirects e start now u n = Some (hops, dest, t) \<Longrightarrow> length hops = n"
  by (induction n arbitrary: now u hops) (auto split: option.split_asm prod.split_asm)

lemma loop_detected:
  assumes "hop \<le> MAX_REDIRECTS" and "u \<in> visited"
  shows "performCheck_loop e start hop u visited chain now =
           (Inr (failedCheck None (now - start)
                  (''redirect loop detected: '' @ u @ '' already visited'')
                  (Some ''REDIRECT_LOOP'') (chainOrNull chain)), now)"
  using assms by (subst performCheck_loop.simps) simp

lemma cap_reached:
  assumes "redirectStep e start now u = Some (sc, next, now')" and "u \<notin> visited"
  shows "performCheck_loop e start MAX_REDIRECTS u visited chain now =
           (Inr (failedCheck (Some sc) (now' - start)
                  (''too many redirects (>'' @ show_int (int MAX_REDIRECTS) @ '')'')
                  (Some ''TOO_MANY_REDIRECTS'')
                  (Some (chain @ [\<lparr>hop_url = u, hop_statusCode = sc\<rparr>]))), now')"
  using assms
  apply (subst performCheck_loop.simps)
  apply (auto simp: redirectStep_def redirectResponse_def Let_def truthy_str_def
      split: if_split_asm option.split_asm sum.split_asm prod.split_asm)
  done

text \<open>
  Claim C3, as stated, fails. In the chain A, B, C, D, E, F where F redirects back to B,
  the answer of F is the sixth redirect: the prober stops there with
  \<open>TOO_MANY_REDIRECTS\<close> and never comes to look B up in the visited set.
\<close>

theorem redirect_loop_scenarioE_counterexample:
  "map_sum id errorCode (fst (performCheck (redirectingEnv scenarioE) 0 ''http://a.test/''))
     = Inr (Some ''TOO_MANY_REDIRECTS'')
   \<and> map_sum id errorCode (fst (performCheck (redirectingEnv scenarioE) 0 ''http://a.test/''))
     \<noteq> Inr (Some ''REDIRECT_LOOP'')"
  by code_simp

text \<open>
  Claim C3, amended. Take a redirect sequence of \<open>n\<close> hops with pairwise different URLs
  whose last redirect points to a URL of the sequence. The check ends with
  \<open>isUp = false\<close>; when \<open>n \<le> 5\<close> (the revisiting redirect comes from one of the first
  five requests) its error code is \<open>REDIRECT_LOOP\<close> and the chain is the whole sequence;
  when \<open>n > 5\<close> its error code is \<open>TOO_MANY_REDIRECTS\<close> and the chain holds the first six
  hops.
\<close>

theorem redirect_revisit_result:
  assumes "followRedirects e start start u n = Some (hops, dest, t)"
    and "distinct (map hop_url hops)"
    and "dest \<in> set (map hop_url hops)"
  shows "\<exists>r t'. performCheck e start u = (Inr r, t')
           \<and> isUp r = Some False
           \<and> errorCode r = Some (if n \<le> 5 then ''REDIRECT_LOOP'' else ''TOO_MANY_REDIRECTS'')
           \<and> redirectChain r = Some (take 6 hops)"
proof (cases "n \<le> 5")
  case True
  from assms(3) have ne: "hops \<noteq> []" by auto
  from True have le: "0 + n \<le> MAX_REDIRECTS" by (simp add: MAX_REDIRECTS_def)
  have len: "length hops = n" by (rule followRedirects_length[OF assms(1)])
  have "performCheck e start u =
          performCheck_loop e start (0 + n) dest ({} \<union> set (map hop_url hops)) ([] @ hops) t"
    unfolding performCheck_def
    by (rule followRedirects_loop[OF assms(1) le assms(2)]) simp
  also have "\<dots> = (Inr (failedCheck None (t - start)
                  (''redirect loop detected: '' @ dest @ '' already visited'')
                  (Some ''REDIRECT_LOOP'') (chainOrNull hops)), t)"
    using le assms(3) by (simp add: loop_detected)
  finally show ?thesis
    using True ne len by (auto simp add: failedCheck_def chainOrNull_def)
next
  case False
  then obtain m where n: "n = 5 + Suc m"
    by (metis add_Suc_right less_iff_Suc_add not_le_imp_less)
  from followRedirects_split[OF assms(1)[unfolded n]] obtain h1 mid t1 h2 where
    first: "followRedirects e start start u 5 = Some (h1, mid, t1)" and
    second: "followRedirects e start t1 mid (Suc m) = Some (h2, dest, t)" and
    hops: "hops = h1 @ h2"
    by blast
  from second obtain sc "next" now' h2' where
    step: "redirectStep e start t1 mid = Some (sc, next, now')" and
    h2: "h2 = \<lparr>hop_url = mid, hop_statusCode = sc\<rparr> # h2'"
    by (auto split: option.split_asm prod.split_asm)
  have len1: "length h1 = 5" by (rule followRedirects_length[OF first])
  from assms(2) hops h2 have d1: "distinct (map hop_url h1)"
    and nv: "mid \<notin> {} \<union> set (map hop_url h1)"
    by auto
  have le: "0 + 5 \<le> MAX_REDIRECTS" by (simp add: MAX_REDIRECTS_def)
  have "performCheck e start u =
          performCheck_loop e start (0 + 5) mid ({} \<union> set (map hop_url h1)) ([] @ h1) t1"
    unfolding performCheck_def
    by (rule followRedirects_loop[OF first le d1]) simp
  also have "\<dots> = performCheck_loop e start MAX_REDIRECTS mid ({} \<union> set (map hop_url h1)) h1 t1"
    by (simp add: MAX_REDIRECTS_def)
  also have "\<dots> = (Inr (failedCheck (Some sc) (now' - start)
                  (''too many redirects (>'' @ show_int (int MAX_REDIRECTS) @ '')'')
                  (Some ''TOO_MANY_REDIRECTS'')
                  (Some (h1 @ [\<lparr>hop_url = mid, hop_statusCode = sc\<rparr>]))), now')"
    by (rule cap_reached[OF step nv])
  finally show ?thesis
    using False hops h2 len1 by (simp add: failedCheck_def)
qed

theorem redirect_revisit_result_witness:
  "followRedirects (redirectingEnv shortLoop) 0 0 ''http://a.test/'' 3
     = Some (shortLoopHops, ''http://a.test/'', 30)
   \<and> distinct (map hop_url shortLoopHops)
   \<and> ''http://a.test/'' \<in> set (map hop_url shortLoopHops)
   \<and> (\<exists>r t'. performCheck (redirectingEnv shortLoop) 0 ''http://a.test/'' = (Inr r, t')
           \<and> isUp r = Some False
           \<and> errorCode r = Some ''REDIRECT_LOOP''
           \<and> redirectChain r = Some shortLoopHops)"
proof -
  have h1: "followRedirects (redirectingEnv shortLoop) 0 0 ''http://a.test/'' 3
              = Some (shortLoopHops, ''http://a.test/'', 30)"
    by code_simp
  have h2: "distinct (map hop_url shortLoopHops)"
    by code_simp
  have h3: "''http://a.test/'' \<in> set (map hop_url shortLoopHops)"
    by code_simp
  have len: "take 6 shortLoopHops = shortLoopHops"
    by (simp add: shortLoopHops_def)
  from redirect_revisit_result[OF h1 h2 h3]
  have "\<exists>r t'. performCheck (redirectingEnv shortLoop) 0 ''http://a.test/'' = (Inr r, t')
           \<and> isUp r = Some False
           \<and> errorCode r = Some ''REDIRECT_LOOP''
           \<and> redirectChain r = Some shortLoopHops"
    by (simp add: len)
  with h1 h2 h3 show ?thesis by blast
qed

text \<open>A URL that the parser rejects makes the promise of \<open>performCheck\<close> reject.\<close>

lemma performCheck_rejects_unparsable:
  "urlProtocol e u = None \<Longrightarrow> performCheck e start u = (Inl (TypeError ''Invalid URL''), start)"
  unfolding performCheck_def
  by (subst performCheck_loop.simps)
     (simp add: singleRequest_def CHECK_TIMEOUT_MS_def MAX_REDIRECTS_def)

text \<open>
  Claim C4 does not hold of the code. For the URL \<open>not a url\<close> the promise of
  \<open>performCheck\<close> rejects with the parser's \<open>TypeError\<close> instead of resolving into a
  result; the same happens when a site answers with a \<open>Location\<close> that does not parse.
  \<open>runChecks\<close> then counts the site and stores no check for it.
\<close>

theorem performCheck_rejects_malformed_url:
  "performCheck (redirectingEnv []) 0 ''not a url'' = (Inl (TypeError ''Invalid URL''), 0)
   \<and> fst (performCheck (redirectingEnv [(''https://example.com'', ''http://'')]) 0
            ''https://example.com'') = Inl (TypeError ''Invalid URL'')
   \<and> fst (runChecks (redirectingEnv []) 0 (malformedDb, idleNotifier)) = 1
   \<and> checks (fst (snd (runChecks (redirectingEnv []) 0 (malformedDb, idleNotifier)))) = []"
  by code_simp

section \<open>Properties of the scheduler\<close>

text \<open>The count of a tick is the number of active sites, whatever their last checks.\<close>

lemma runChecks_counts_active_sites:
  "fst (runChecks e now w) = length (filter isActive (sites (fst w)))"
  by (simp add: runChecks_def Let_def)

text \<open>
  Claim C1 does not hold of the code. The store holds one active site, without a settings
  row, whose last check was recorded at clock 90000. The tick at clock 100000, ten seconds
  later and well inside the default interval of 60 seconds, probes the site all the same:
  the count is 1 and a second check of the site is stored (the probe ends at 100010, which
  the store keeps as the second 100000).
\<close>

theorem runChecks_probes_recently_checked_site:
  "fst (runChecks (redirectingEnv []) 100000 (recentDb, idleNotifier)) = 1
   \<and> map (\<lambda>c. (c_siteId c, checkedAt c))
         (checks (fst (snd (runChecks (redirectingEnv []) 100000 (recentDb, idleNotifier)))))
       = [(1, 90000), (1, 100000)]"
  by code_simp

end
